theory Spec2Isabelle
  imports Main "HOL-Library.AList" "HOL-Library.Sublist"
begin

section \<open>JSON values as the SDK sees them\<close>

text \<open>
  The SDK (\<^verbatim>\<open>packages/sdk/src/index.ts\<close>) moves JSON between its caller and the dispatcher.
  Its TypeScript types (\<^verbatim>\<open>EnqueueBody\<close>, \<^verbatim>\<open>ClaimResponse\<close>, \<^verbatim>\<open>CallbackPayload\<close>) are erased at
  run time and \<^verbatim>\<open>requestJson\<close> casts whatever it parsed (\<^verbatim>\<open>body as T\<close>), so the values that
  flow through the client are arbitrary JSON values. Numbers are restricted to integers;
  an object is the list of its members in insertion order.
\<close>

datatype json =
    JNull
  | JBool bool
  | JNum int
  | JStr string
  | JArr "json list"
  | JObj "(string \<times> json) list"

text \<open>
  What the client's code can throw. \<open>Error\<close> is the \<^verbatim>\<open>new Error(message)\<close> of
  \<^verbatim>\<open>requestJson\<close>; \<open>TypeError\<close> is the property read on \<^verbatim>\<open>null\<close>. Everything else is
  raised by the HTTP library or by the reader of a body and only passes through the client:
  \<open>InvalidHeaderValue v\<close> is the TypeError with which fetch refuses a header value, whose
  message quotes the value \<open>v\<close>; \<open>Raised c m\<close> is any other error, of class \<open>c\<close> with
  message \<open>m\<close> (undici's \<^verbatim>\<open>Error: connect ECONNREFUSED\<close>, fetch's
  \<^verbatim>\<open>TypeError: fetch failed\<close>, a reader's SyntaxError with its own wording).
\<close>

datatype error =
    Error string
  | TypeError
  | InvalidHeaderValue string
  | Raised string string

subsection \<open>Decimal rendering of numbers in template literals and JSON\<close>

definition digit_char :: "nat \<Rightarrow> char" where
  "digit_char d = ''0123456789abcdef'' ! (d mod 16)"

fun string_of_nat :: "nat \<Rightarrow> string" where
  "string_of_nat n =
     (if n < 10 then [digit_char n] else string_of_nat (n div 10) @ [digit_char (n mod 10)])"

declare string_of_nat.simps [simp del]

text \<open>
  \<^verbatim>\<open>JSON.stringify\<close> prints an integer in decimal digits up to 21 digits and turns to the
  exponent form from \<^verbatim>\<open>1e21\<close> on; the rendering below is the decimal one and stands
  for the integers a JSON number holds exactly (below \<^verbatim>\<open>2^53\<close> in magnitude).
\<close>

definition string_of_int :: "int \<Rightarrow> string" where
  "string_of_int i = (if i < 0 then CHR ''-'' # string_of_nat (nat (- i)) else string_of_nat (nat i))"

subsection \<open>\<^verbatim>\<open>JSON.stringify\<close>\<close>

text \<open>
  The serialisation of ECMAScript's \<^verbatim>\<open>JSON.stringify(value)\<close> (no replacer, no indentation)
  on the values above: members in insertion order, no white space, strings quoted with the
  two-character escapes and \<^verbatim>\<open>\u00XX\<close> for the other control characters.
\<close>

definition escape_char :: "char \<Rightarrow> string" where
  "escape_char c =
     (if c = CHR 0x22 then [CHR 0x5C, CHR 0x22]
      else if c = CHR 0x5C then [CHR 0x5C, CHR 0x5C]
      else if c = CHR 0x08 then [CHR 0x5C, CHR ''b'']
      else if c = CHR 0x0C then [CHR 0x5C, CHR ''f'']
      else if c = CHR 0x0A then [CHR 0x5C, CHR ''n'']
      else if c = CHR 0x0D then [CHR 0x5C, CHR ''r'']
      else if c = CHR 0x09 then [CHR 0x5C, CHR ''t'']
      else if (of_char c :: nat) < 32
        then [CHR 0x5C, CHR ''u'', CHR ''0'', CHR ''0'',
              digit_char ((of_char c :: nat) div 16), digit_char ((of_char c :: nat) mod 16)]
      else [c])"

definition quote :: "string \<Rightarrow> string" where
  "quote s = CHR 0x22 # concat (map escape_char s) @ [CHR 0x22]"

fun JSON_stringify :: "json \<Rightarrow> string"
  and stringify_elements :: "json list \<Rightarrow> string"
  and stringify_members :: "(string \<times> json) list \<Rightarrow> string" where
  "JSON_stringify JNull = ''null''"
| "JSON_stringify (JBool b) = (if b then ''true'' else ''false'')"
| "JSON_stringify (JNum i) = string_of_int i"
| "JSON_stringify (JStr s) = quote s"
| "JSON_stringify (JArr vs) = ''['' @ stringify_elements vs @ '']''"
| "JSON_stringify (JObj kvs) = ''{'' @ stringify_members kvs @ ''}''"
| "stringify_elements [] = []"
| "stringify_elements [v] = JSON_stringify v"
| "stringify_elements (v # w # vs) = JSON_stringify v @ '','' @ stringify_elements (w # vs)"
| "stringify_members [] = []"
| "stringify_members [(k, v)] = quote k @ '':'' @ JSON_stringify v"
| "stringify_members ((k, v) # m # kvs) =
     quote k @ '':'' @ JSON_stringify v @ '','' @ stringify_members (m # kvs)"

subsection \<open>Property reads and truthiness\<close>

text \<open>
  \<^verbatim>\<open>value.name\<close>: \<^verbatim>\<open>null.name\<close> throws a TypeError; an object yields the member or
  \<^verbatim>\<open>undefined\<close> (\<open>None\<close>); booleans, numbers, strings and arrays have no own property of
  the names read here, so the read is \<^verbatim>\<open>undefined\<close>.
\<close>

fun get_property :: "json \<Rightarrow> string \<Rightarrow> error + json option" where
  "get_property JNull name = Inl TypeError"
| "get_property (JObj kvs) name = Inr (map_of kvs name)"
| "get_property v name = Inr None"

fun truthy :: "json option \<Rightarrow> bool" where
  "truthy None = False"
| "truthy (Some JNull) = False"
| "truthy (Some (JBool b)) = b"
| "truthy (Some (JNum i)) = (i \<noteq> 0)"
| "truthy (Some (JStr s)) = (s \<noteq> [])"
| "truthy (Some (JArr vs)) = True"
| "truthy (Some (JObj kvs)) = True"

section \<open>The HTTP layer\<close>

text \<open>
  A request is what the client hands to \<^verbatim>\<open>request(url, init)\<close> or \<^verbatim>\<open>fetch(url, init)\<close>:
  the URL and the \<^verbatim>\<open>RequestInit\<close> object. \<^verbatim>\<open>headers\<close> is the \<^verbatim>\<open>Record<string, string>\<close> the
  method builds, in insertion order, and is empty when \<^verbatim>\<open>init\<close> has no \<^verbatim>\<open>headers\<close>;
  \<^verbatim>\<open>body\<close> is \<open>None\<close> when \<^verbatim>\<open>init\<close> has no \<^verbatim>\<open>body\<close>.
\<close>

record request_init =
  "method" :: string
  headers :: "(string \<times> string) list"
  body :: "string option"

text \<open>
  A response object as the client observes it: the status line, the result of reading
  the body as text (\<^verbatim>\<open>res.text()\<close>, \<open>None\<close> when the read rejects) and the result of
  reading it as JSON (\<^verbatim>\<open>res.json()\<close>, \<^verbatim>\<open>response.body.json()\<close>): the parsed value, or
  the error the reader throws. The object is the library's: for the same bytes from the
  server the object of undici and the object of fetch need not read alike (fetch decodes a
  content encoding, undici's \<^verbatim>\<open>request\<close> does not).
\<close>

record http_response =
  status :: nat
  statusText :: string
  body_text :: "string option"
  body_json :: "error + json"

text \<open>
  The transport is the HTTP library with the network and the dispatcher behind it:
  undici's \<^verbatim>\<open>request\<close> for the first copy of the client, the global \<^verbatim>\<open>fetch\<close> for the
  later ones. It answers a request with a response object, or rejects with an error of its
  own, which may depend on the request (a header value it refuses) and differs from one
  library to the other. The wire is the log of the requests handed to it.
\<close>

type_synonym transport = "string \<Rightarrow> request_init \<Rightarrow> error + http_response"
type_synonym wire = "(string \<times> request_init) list"

definition ok :: "http_response \<Rightarrow> bool" where
  "ok res = (200 \<le> status res \<and> status res \<le> 299)"

text \<open>
  The first \<^verbatim>\<open>requestJson\<close> (undici): the body is parsed whatever the status is.
\<close>

definition requestJson_undici ::
  "transport \<Rightarrow> string \<Rightarrow> request_init \<Rightarrow> wire \<Rightarrow> (error + json) \<times> wire" where
  "requestJson_undici request url init w =
     (case request url init of
        Inl e \<Rightarrow> (Inl e, w @ [(url, init)])
      | Inr response \<Rightarrow>
          (case body_json response of
             Inl e \<Rightarrow> (Inl e, w @ [(url, init)])
           | Inr v \<Rightarrow> (Inr v, w @ [(url, init)])))"

text \<open>
  The later \<^verbatim>\<open>requestJson\<close> (global fetch): a response that is not 2xx throws an Error
  whose message holds the status, the status text and the body text (empty when the body
  cannot be read).
\<close>

definition requestJson_fetch ::
  "transport \<Rightarrow> string \<Rightarrow> request_init \<Rightarrow> wire \<Rightarrow> (error + json) \<times> wire" where
  "requestJson_fetch fetch url init w =
     (case fetch url init of
        Inl e \<Rightarrow> (Inl e, w @ [(url, init)])
      | Inr res \<Rightarrow>
          if \<not> ok res then
            (let t = (case body_text res of None \<Rightarrow> [] | Some s \<Rightarrow> s)
             in (Inl (Error (''HTTP '' @ string_of_nat (status res) @ '' '' @ statusText res
                              @ '': '' @ t)),
                 w @ [(url, init)]))
          else
            (case body_json res of
               Inl e \<Rightarrow> (Inl e, w @ [(url, init)])
             | Inr v \<Rightarrow> (Inr v, w @ [(url, init)])))"

text \<open>The module variant: the class body is the same text in both.\<close>

datatype impl = Undici | Fetch

fun requestJson ::
  "impl \<Rightarrow> transport \<Rightarrow> string \<Rightarrow> request_init \<Rightarrow> wire \<Rightarrow> (error + json) \<times> wire" where
  "requestJson Undici = requestJson_undici"
| "requestJson Fetch = requestJson_fetch"

section \<open>HiveClient\<close>

definition normalizeBaseUrl :: "string \<Rightarrow> string" where
  \<comment> \<open>\<^verbatim>\<open>baseUrl.replace(/\/$/, "")\<close>: one trailing slash is removed\<close>
  "normalizeBaseUrl baseUrl =
     (if baseUrl \<noteq> [] \<and> last baseUrl = CHR ''/'' then butlast baseUrl else baseUrl)"

record HiveClient =
  baseUrl :: string
  internalToken :: "string option"
  callbackSecret :: "string option"

definition new_HiveClient :: "string \<Rightarrow> string option \<Rightarrow> string option \<Rightarrow> HiveClient" where
  "new_HiveClient url tok sec =
     \<lparr>baseUrl = normalizeBaseUrl url, internalToken = tok, callbackSecret = sec\<rparr>"

definition health :: "impl \<Rightarrow> HiveClient \<Rightarrow> transport \<Rightarrow> wire \<Rightarrow> (error + json) \<times> wire" where
  "health i c net w =
     requestJson i net (baseUrl c @ ''/health'') \<lparr>method = ''GET'', headers = [], body = None\<rparr> w"

text \<open>
  \<^verbatim>\<open>if (this.internalToken)\<close> holds for a string that is defined and not empty. The job is
  serialised as it is: \<^verbatim>\<open>enqueue\<close> does not call \<^verbatim>\<open>EnqueueSchema\<close>.
\<close>

definition enqueue_headers :: "HiveClient \<Rightarrow> (string \<times> string) list" where
  "enqueue_headers c =
     (case internalToken c of
        None \<Rightarrow> [(''content-type'', ''application/json'')]
      | Some t \<Rightarrow>
          if t \<noteq> [] then
            AList.update ''authorization'' (''Bearer '' @ t) [(''content-type'', ''application/json'')]
          else [(''content-type'', ''application/json'')])"

definition enqueue ::
  "impl \<Rightarrow> HiveClient \<Rightarrow> transport \<Rightarrow> json \<Rightarrow> wire \<Rightarrow> (error + json) \<times> wire" where
  "enqueue i c net job w =
     requestJson i net (baseUrl c @ ''/enqueue'')
       \<lparr>method = ''POST'', headers = enqueue_headers c, body = Some (JSON_stringify job)\<rparr> w"

definition claim :: "impl \<Rightarrow> HiveClient \<Rightarrow> transport \<Rightarrow> wire \<Rightarrow> (error + json) \<times> wire" where
  "claim i c net w =
     requestJson i net (baseUrl c @ ''/claim'') \<lparr>method = ''POST'', headers = [], body = None\<rparr> w"

definition callback_headers :: "HiveClient \<Rightarrow> (string \<times> string) list" where
  "callback_headers c =
     (case callbackSecret c of
        None \<Rightarrow> [(''content-type'', ''application/json'')]
      | Some s \<Rightarrow>
          if s \<noteq> [] then
            AList.update ''x-callback-secret'' s [(''content-type'', ''application/json'')]
          else [(''content-type'', ''application/json'')])"

definition callback ::
  "impl \<Rightarrow> HiveClient \<Rightarrow> transport \<Rightarrow> json \<Rightarrow> wire \<Rightarrow> (error + json) \<times> wire" where
  "callback i c net payload w =
     requestJson i net (baseUrl c @ ''/callback'')
       \<lparr>method = ''POST'', headers = callback_headers c, body = Some (JSON_stringify payload)\<rparr> w"

section \<open>Next.js route handlers\<close>

record Response =
  resp_body :: string
  resp_status :: nat
  resp_headers :: "(string \<times> string) list"

definition createNextClaimRoute ::
  "impl \<Rightarrow> HiveClient \<Rightarrow> transport \<Rightarrow> wire \<Rightarrow> (error + Response) \<times> wire" where
  "createNextClaimRoute i client net w =
     (case claim i client net w of
        (Inl e, w') \<Rightarrow> (Inl e, w')
      | (Inr data, w') \<Rightarrow>
          (Inr \<lparr>resp_body = JSON_stringify data, resp_status = 200,
                resp_headers = [(''content-type'', ''application/json'')]\<rparr>, w'))"

text \<open>
  The callback handler reads the incoming request's JSON (\<open>Inl\<close>: \<^verbatim>\<open>req.json()\<close>
  rejects with that error), forwards it, and answers 200 or 401 on the truthiness of
  \<^verbatim>\<open>data.ok\<close>.
\<close>

definition createNextCallbackRoute ::
  "impl \<Rightarrow> HiveClient \<Rightarrow> transport \<Rightarrow> error + json \<Rightarrow> wire \<Rightarrow> (error + Response) \<times> wire" where
  "createNextCallbackRoute i client net req w =
     (case req of
        Inl e \<Rightarrow> (Inl e, w)
      | Inr payload \<Rightarrow>
          (case callback i client net payload w of
             (Inl e, w') \<Rightarrow> (Inl e, w')
           | (Inr data, w') \<Rightarrow>
               (case get_property data ''ok'' of
                  Inl e \<Rightarrow> (Inl e, w')
                | Inr flag \<Rightarrow>
                    (Inr \<lparr>resp_body = JSON_stringify data,
                          resp_status = (if truthy flag then 200 else 401),
                          resp_headers = [(''content-type'', ''application/json'')]\<rparr>, w'))))"

section \<open>EnqueueSchema\<close>

text \<open>
  The zod schema exported by the SDK. \<^verbatim>\<open>z.object\<close> accepts an object and ignores unknown
  members; an \<^verbatim>\<open>.optional()\<close> member may be absent; \<^verbatim>\<open>z.record\<close> accepts an object.
  What \<^verbatim>\<open>z.string().url()\<close> accepts is zod's business and is the parameter \<open>is_url\<close>.
\<close>

definition is_string :: "json option \<Rightarrow> bool" where
  "is_string v = (case v of Some (JStr s) \<Rightarrow> True | _ \<Rightarrow> False)"

definition optional_string :: "json option \<Rightarrow> bool" where
  "optional_string v = (case v of None \<Rightarrow> True | Some (JStr s) \<Rightarrow> True | _ \<Rightarrow> False)"

definition task_enum :: "json option \<Rightarrow> bool" where
  "task_enum v = (case v of Some (JStr s) \<Rightarrow> s \<in> set [''agent'', ''script'', ''custom''] | _ \<Rightarrow> False)"

definition optional_url :: "(string \<Rightarrow> bool) \<Rightarrow> json option \<Rightarrow> bool" where
  "optional_url is_url v = (case v of None \<Rightarrow> True | Some (JStr s) \<Rightarrow> is_url s | _ \<Rightarrow> False)"

definition optional_record :: "json option \<Rightarrow> bool" where
  "optional_record v = (case v of None \<Rightarrow> True | Some (JObj kvs) \<Rightarrow> True | _ \<Rightarrow> False)"

definition EnqueueSchema :: "(string \<Rightarrow> bool) \<Rightarrow> json \<Rightarrow> bool" where
  "EnqueueSchema is_url v =
     (case v of
        JObj kvs \<Rightarrow>
          is_string (map_of kvs ''jobId'')
          \<and> task_enum (map_of kvs ''task'')
          \<and> is_string (map_of kvs ''instructions'')
          \<and> optional_url is_url (map_of kvs ''repo'')
          \<and> optional_string (map_of kvs ''branch'')
          \<and> optional_string (map_of kvs ''base'')
          \<and> optional_string (map_of kvs ''githubToken'')
          \<and> optional_record (map_of kvs ''metadata'')
      | _ \<Rightarrow> False)"

section \<open>Transports, responses and what a request or an error mentions\<close>

text \<open>
  A transport that answers every request in the same way, whatever the request is (a fixed
  response object, or a rejection that is always the same).
\<close>

definition fixed_response :: "error + http_response \<Rightarrow> transport" where
  "fixed_response r url init = r"

text \<open>
  The response object of a server that answers with a status line and the JSON text of a
  value: read as text the body is that text, read as JSON it is the value.
\<close>

definition json_response :: "nat \<Rightarrow> string \<Rightarrow> json \<Rightarrow> http_response" where
  "json_response code reason v =
     \<lparr>status = code, statusText = reason, body_text = Some (JSON_stringify v), body_json = Inr v\<rparr>"

text \<open>
  What the global fetch does with the header values of a request before anything goes to
  the network, for a URL that parses and a dispatcher whose answer is fixed. Each value is
  stripped of leading and trailing HTTP white space (tab, line feed, carriage return,
  space). A value that then holds a NUL, a line feed or a carriage return is refused by the
  Headers class with a TypeError that quotes the value. A value with another character
  outside tab, \<^verbatim>\<open>0x20-0x7e\<close> and \<^verbatim>\<open>0x80-0xff\<close> is refused further down and fetch
  rejects with \<^verbatim>\<open>TypeError: fetch failed\<close>. Otherwise the request goes out and the
  dispatcher's answer comes back.
\<close>

definition http_whitespace :: "char \<Rightarrow> bool" where
  "http_whitespace c = (c = CHR 0x09 \<or> c = CHR 0x0A \<or> c = CHR 0x0D \<or> c = CHR 0x20)"

definition headerValueNormalize :: "string \<Rightarrow> string" where
  "headerValueNormalize v = rev (dropWhile http_whitespace (rev (dropWhile http_whitespace v)))"

definition isValidHeaderValue :: "string \<Rightarrow> bool" where
  "isValidHeaderValue v = (\<not> list_ex (\<lambda>c. c = CHR 0x00 \<or> c = CHR 0x0A \<or> c = CHR 0x0D) v)"

definition header_char :: "char \<Rightarrow> bool" where
  "header_char c =
     (c = CHR 0x09 \<or> (32 \<le> (of_char c :: nat) \<and> (of_char c :: nat) \<le> 126) \<or> 128 \<le> (of_char c :: nat))"

definition fetch_answered :: "error + http_response \<Rightarrow> transport" where
  "fetch_answered answer url init =
     (case find (\<lambda>h. \<not> isValidHeaderValue (headerValueNormalize (snd h))) (headers init) of
        Some h \<Rightarrow> Inl (InvalidHeaderValue (headerValueNormalize (snd h)))
      | None \<Rightarrow>
          if list_all (\<lambda>h. list_all header_char (headerValueNormalize (snd h))) (headers init)
          then answer
          else Inl (Raised ''TypeError'' ''fetch failed''))"

text \<open>
  Whether a string occurs in the text of an error, and whether it occurs in a request that
  was handed to the transport: in its URL, in a header name or value, or in its body.
\<close>

fun error_mentions :: "string \<Rightarrow> error \<Rightarrow> bool" where
  "error_mentions s (Error m) = sublist s m"
| "error_mentions s TypeError = False"
| "error_mentions s (InvalidHeaderValue v) = sublist s v"
| "error_mentions s (Raised c m) = sublist s m"

definition request_mentions :: "string \<Rightarrow> string \<times> request_init \<Rightarrow> bool" where
  "request_mentions s rq =
     (sublist s (fst rq)
      \<or> list_ex (\<lambda>h. sublist s (fst h) \<or> sublist s (snd h)) (headers (snd rq))
      \<or> (case body (snd rq) of None \<Rightarrow> False | Some b \<Rightarrow> sublist s b))"

definition accept_any_url :: "string \<Rightarrow> bool" where
  "accept_any_url s = True"

section \<open>The dispatcher core\<close>

text \<open>
  Modelled from the spec: the dispatcher (\<^verbatim>\<open>apps/dispatcher\<close>: Job Record Store, Queue, Claim
  Coordinator, Status Tracker) is not among the sources; only its caller, the SDK, is. The
  definitions of this section follow sections 3, 4.1 to 4.3 and 7 of the specification. The
  Auth Gate (section 4.4) sits in front of these operations and is not part of them. Each
  operation is one atomic step on the dispatcher state and returns its outcome together
  with the state it leaves; a failing operation leaves the state as it was.
\<close>

text \<open>
  Modelled from the spec: the closed set of task kinds, the lifecycle states of section 3,
  the statuses a worker may report (section 4.3) and the failures of section 7.
\<close>

datatype task_kind = Agent | Script | Custom

datatype lifecycle = Pending | Claimed | Running | Succeeded | Failed

datatype report = ReportRunning | ReportSucceeded | ReportFailed

datatype dispatch_error =
  DuplicateJob | UnknownClaim | ClaimMismatch | ClaimClosed | InvariantViolation

text \<open>Modelled from the spec: the Job of section 3, the fields a submitter supplies.\<close>

record Job =
  jobId :: string
  task :: task_kind
  instructions :: string
  repo :: "string option"
  branch :: "string option"
  base :: "string option"
  githubToken :: "string option"
  metadata :: "(string \<rightharpoonup> json) option"

text \<open>
  Modelled from the spec: a record of the Job Record Store: the submitted job, which never
  changes, its lifecycle state, and the logs and merged metadata that reports leave.
\<close>

record JobRecord =
  job :: Job
  state :: lifecycle
  logs :: "string option"
  merged :: "string \<rightharpoonup> json"

text \<open>
  Modelled from the spec: a claim (jobId, workerId, claim timestamp), kept under its
  claimId. Claim identifiers are dispatcher-generated and of a type of their own
  (numbers, handed out by a counter), so they are distinct from job identifiers.
\<close>

record ClaimRecord =
  claim_jobId :: string
  claim_workerId :: string
  claimedAt :: nat

text \<open>
  Modelled from the spec: the dispatcher state: the store, the queue of pending job
  identifiers (head first), the active claims, the claims closed by a terminal report and
  the next fresh claim identifier.
\<close>

record Dispatcher =
  store :: "string \<rightharpoonup> JobRecord"
  queue :: "string list"
  active :: "nat \<rightharpoonup> ClaimRecord"
  closed :: "nat set"
  nextClaimId :: nat

definition initial :: Dispatcher where
  \<comment> \<open>Modelled from the spec: the empty dispatcher; the first claim is number 1.\<close>
  "initial = \<lparr>store = Map.empty, queue = [], active = Map.empty, closed = {}, nextClaimId = 1\<rparr>"

definition Queue_enqueue :: "Dispatcher \<Rightarrow> Job \<Rightarrow> (dispatch_error + nat) \<times> Dispatcher" where
  \<comment> \<open>Modelled from the spec: section 4.1, \<^verbatim>\<open>enqueue\<close>: DuplicateJob when the jobId exists
      anywhere in the store; otherwise the job becomes pending at the tail of the queue and
      the new queue length is returned.\<close>
  "Queue_enqueue d j =
     (case store d (jobId j) of
        Some r \<Rightarrow> (Inl DuplicateJob, d)
      | None \<Rightarrow>
          (Inr (Suc (length (queue d))),
           d\<lparr>store := (store d)(jobId j \<mapsto>
                 \<lparr>job = j, state = Pending, logs = None,
                  merged = (case metadata j of None \<Rightarrow> Map.empty | Some m \<Rightarrow> m)\<rparr>),
             queue := queue d @ [jobId j]\<rparr>))"

definition dequeueNext :: "Dispatcher \<Rightarrow> string option \<times> Dispatcher" where
  \<comment> \<open>Modelled from the spec: section 4.1, \<^verbatim>\<open>dequeueNext\<close>: removes and returns the head,
      \<open>None\<close> (QueueEmpty) when nothing is pending.\<close>
  "dequeueNext d =
     (case queue d of
        [] \<Rightarrow> (None, d)
      | h # rest \<Rightarrow> (Some h, d\<lparr>queue := rest\<rparr>))"

text \<open>
  Modelled from the spec: what a claim returns: "no job available", or the job payload
  with its claimId.
\<close>

datatype claim_result = NoJob | Granted Job nat

definition Coordinator_claim ::
  "Dispatcher \<Rightarrow> string \<Rightarrow> nat \<Rightarrow> (dispatch_error + claim_result) \<times> Dispatcher" where
  \<comment> \<open>Modelled from the spec: section 4.2, \<^verbatim>\<open>claim(workerId)\<close> at time \<open>now\<close>: no job on an
      empty queue; otherwise the head is dequeued, a fresh claimId is generated, the claim is
      recorded, the job becomes claimed and the payload is returned with the claimId. A
      queued identifier that the store does not know is an invariant violation (section 7).\<close>
  "Coordinator_claim d workerId now =
     (case dequeueNext d of
        (None, d1) \<Rightarrow> (Inr NoJob, d)
      | (Some h, d1) \<Rightarrow>
          (case store d1 h of
             None \<Rightarrow> (Inl InvariantViolation, d)
           | Some r \<Rightarrow>
               (Inr (Granted (job r) (nextClaimId d1)),
                d1\<lparr>store := (store d1)(h \<mapsto> r\<lparr>state := Claimed\<rparr>),
                   active := (active d1)(nextClaimId d1 \<mapsto>
                      \<lparr>claim_jobId = h, claim_workerId = workerId, claimedAt = now\<rparr>),
                   nextClaimId := Suc (nextClaimId d1)\<rparr>)))"

text \<open>
  Modelled from the spec: succeeded and failed are the terminal statuses; a report moves
  the job to the state of the same name.
\<close>

fun terminal :: "report \<Rightarrow> bool" where
  "terminal ReportRunning = False"
| "terminal ReportSucceeded = True"
| "terminal ReportFailed = True"

fun reported_state :: "report \<Rightarrow> lifecycle" where
  "reported_state ReportRunning = Running"
| "reported_state ReportSucceeded = Succeeded"
| "reported_state ReportFailed = Failed"

definition reportStatus ::
  "Dispatcher \<Rightarrow> nat \<Rightarrow> string \<Rightarrow> report \<Rightarrow> string option \<Rightarrow> (string \<rightharpoonup> json) option
     \<Rightarrow> (dispatch_error + unit) \<times> Dispatcher" where
  \<comment> \<open>Modelled from the spec: section 4.3, \<^verbatim>\<open>reportStatus(claimId, workerId, status, logs?,
      metadata?)\<close>: ClaimClosed for a claim a terminal report has closed, UnknownClaim for a
      claimId that is not active, ClaimMismatch for another worker's claim. The enforced
      transitions leave claimed or running only. Supplied logs replace the stored ones and
      supplied metadata is merged, new keys winning. A terminal report closes the claim.\<close>
  "reportStatus d claimId workerId st lg md =
     (if claimId \<in> closed d then (Inl ClaimClosed, d)
      else
        (case active d claimId of
           None \<Rightarrow> (Inl UnknownClaim, d)
         | Some c \<Rightarrow>
             if claim_workerId c \<noteq> workerId then (Inl ClaimMismatch, d)
             else
               (case store d (claim_jobId c) of
                  None \<Rightarrow> (Inl InvariantViolation, d)
                | Some r \<Rightarrow>
                    if state r \<noteq> Claimed \<and> state r \<noteq> Running then (Inl InvariantViolation, d)
                    else if terminal st then
                      (Inr (),
                       d\<lparr>store := (store d)(claim_jobId c \<mapsto>
                             r\<lparr>state := reported_state st,
                               logs := (case lg of None \<Rightarrow> logs r | Some l \<Rightarrow> Some l),
                               merged := (case md of None \<Rightarrow> merged r | Some m \<Rightarrow> merged r ++ m)\<rparr>),
                         active := (active d)(claimId := None),
                         closed := insert claimId (closed d)\<rparr>)
                    else
                      (Inr (),
                       d\<lparr>store := (store d)(claim_jobId c \<mapsto>
                             r\<lparr>state := reported_state st,
                               logs := (case lg of None \<Rightarrow> logs r | Some l \<Rightarrow> Some l),
                               merged := (case md of None \<Rightarrow> merged r | Some m \<Rightarrow> merged r ++ m)\<rparr>)\<rparr>))))"

subsection \<open>Sequences of operations\<close>

text \<open>
  Modelled from the spec: callers of the dispatcher issue the three operations one after
  another (section 5 serialises them); \<open>run\<close> applies a sequence and keeps the state,
  \<open>enqueue_all\<close> and \<open>claim_all\<close> also collect what each call returned.
\<close>

datatype operation =
    OpEnqueue Job
  | OpClaim string nat
  | OpReport nat string report "string option" "(string \<rightharpoonup> json) option"

fun step :: "Dispatcher \<Rightarrow> operation \<Rightarrow> Dispatcher" where
  "step d (OpEnqueue j) = snd (Queue_enqueue d j)"
| "step d (OpClaim w now) = snd (Coordinator_claim d w now)"
| "step d (OpReport cid w st lg md) = snd (reportStatus d cid w st lg md)"

fun run :: "Dispatcher \<Rightarrow> operation list \<Rightarrow> Dispatcher" where
  "run d [] = d"
| "run d (x # xs) = run (step d x) xs"

fun enqueue_all :: "Dispatcher \<Rightarrow> Job list \<Rightarrow> (dispatch_error + nat) list \<times> Dispatcher" where
  "enqueue_all d [] = ([], d)"
| "enqueue_all d (j # js) =
     (case Queue_enqueue d j of
        (r, d1) \<Rightarrow> (case enqueue_all d1 js of (rs, d2) \<Rightarrow> (r # rs, d2)))"

fun claim_all :: "Dispatcher \<Rightarrow> (string \<times> nat) list \<Rightarrow> (dispatch_error + claim_result) list" where
  "claim_all d [] = []"
| "claim_all d (wt # wts) =
     (case Coordinator_claim d (fst wt) (snd wt) of
        (r, d1) \<Rightarrow> r # claim_all d1 wts)"

text \<open>
  What holds of every state the operations reach from the empty dispatcher: the queue has
  no identifier twice and every queued identifier is a pending job of the store.
\<close>

definition queue_pending :: "Dispatcher \<Rightarrow> bool" where
  "queue_pending d =
     (distinct (queue d)
      \<and> list_all (\<lambda>h. case store d h of None \<Rightarrow> False | Some r \<Rightarrow> state r = Pending) (queue d))"

text \<open>
  The bound that keeps claim identifiers fresh: every identifier handed out so far, active
  or closed, is below the counter.
\<close>

abbreviation ids_below :: "Dispatcher \<Rightarrow> bool" where
  "ids_below d \<equiv> (\<forall>n\<in>closed d. n < nextClaimId d) \<and> (\<forall>n\<in>dom (active d). n < nextClaimId d)"

text \<open>The job of the repository's quick start, under a chosen identifier.\<close>

definition example_job :: "string \<Rightarrow> Job" where
  "example_job jid =
     \<lparr>jobId = jid, task = Agent, instructions = ''Add README quickstart'',
      repo = Some ''https://github.com/jobrayan/codimir-web.git'', branch = Some ''ci/demo'',
      base = Some ''main'', githubToken = None, metadata = None\<rparr>"

section \<open>What the client sends\<close>

lemma requestJson_wire: "snd (requestJson i net url init w) = w @ [(url, init)]"
  by (cases i) (simp_all add: requestJson_undici_def requestJson_fetch_def Let_def split: sum.splits)

lemma requestJson_outcome_cong:
  "net url init = net' url' init' \<Longrightarrow>
     fst (requestJson i net url init w) = fst (requestJson i net' url' init' w')"
  by (cases i) (simp_all add: requestJson_undici_def requestJson_fetch_def Let_def split: sum.splits)


subsection \<open>Validation before submission\<close>

text \<open>
  C1, as stated: a payload that fails EnqueueSchema is rejected by the client and never
  sent. It does not hold: \<^verbatim>\<open>enqueue\<close> never consults the schema. The payload below has no
  \<^verbatim>\<open>instructions\<close> and a \<^verbatim>\<open>task\<close> outside the enumeration, so the schema rejects it
  whatever counts as a URL, and the client still puts it on the wire.
\<close>

theorem enqueue_validates_counterexample:
  \<open>\<not> EnqueueSchema accept_any_url (JObj [(''jobId'', JStr ''demo-1''), (''task'', JStr ''deploy'')])
   \<and> snd (enqueue Fetch (new_HiveClient ''http://localhost:8099'' None None)
            (fixed_response (Inl (Raised ''TypeError'' ''fetch failed'')))
            (JObj [(''jobId'', JStr ''demo-1''), (''task'', JStr ''deploy'')]) [])
     = [(''http://localhost:8099/enqueue'',
         \<lparr>method = ''POST'', headers = [(''content-type'', ''application/json'')],
          body = Some ''{"jobId":"demo-1","task":"deploy"}''\<rparr>)]\<close>
  by (simp add: EnqueueSchema_def task_enum_def is_string_def enqueue_def new_HiveClient_def
      normalizeBaseUrl_def enqueue_headers_def requestJson_fetch_def fixed_response_def
      quote_def escape_char_def)

text \<open>
  C1, amended: \<^verbatim>\<open>HiveClient.enqueue\<close> does no validation. Every payload it is given,
  whether EnqueueSchema accepts it or not, goes out in exactly one request: a POST to
  \<^verbatim>\<open><baseUrl>/enqueue\<close> whose body is the payload's \<^verbatim>\<open>JSON.stringify\<close>. The schema is
  exported for callers to apply.
\<close>

theorem enqueue_sends_unvalidated:
  "snd (enqueue i c net jb w) =
     w @ [(baseUrl c @ ''/enqueue'',
           \<lparr>method = ''POST'', headers = enqueue_headers c, body = Some (JSON_stringify jb)\<rparr>)]"
  by (simp add: enqueue_def requestJson_wire)

subsection \<open>The claim request\<close>

text \<open>
  C2, as stated: the claim call takes a workerId and the workerId accompanies the request.
  It does not hold: \<^verbatim>\<open>claim()\<close> has no parameter, and the request a worker named
  \<^verbatim>\<open>worker-1\<close> causes mentions that name nowhere, neither in the URL nor in a header nor
  in a body.
\<close>

theorem claim_carries_worker_counterexample:
  "\<not> list_ex (request_mentions ''worker-1'')
       (snd (claim Fetch (new_HiveClient ''http://localhost:8099'' None None)
              (fixed_response (Inl (Raised ''TypeError'' ''fetch failed''))) []))"
  by (simp add: claim_def new_HiveClient_def normalizeBaseUrl_def requestJson_fetch_def
      fixed_response_def request_mentions_def) code_simp

text \<open>
  C2, amended: \<^verbatim>\<open>HiveClient.claim\<close> takes no workerId. A claim call sends exactly one
  request, a POST to \<^verbatim>\<open><baseUrl>/claim\<close> with no headers and no body, so the request is
  the same whichever worker asks.
\<close>

theorem claim_request_shape:
  "snd (claim i c net w) =
     w @ [(baseUrl c @ ''/claim'', \<lparr>method = ''POST'', headers = [], body = None\<rparr>)]"
  by (simp add: claim_def requestJson_wire)

subsection \<open>Which secret goes with which operation\<close>

text \<open>
  C3: for a client configured with both secrets (each a non-empty string, which is what
  \<^verbatim>\<open>if (this.internalToken)\<close> and \<^verbatim>\<open>if (this.callbackSecret)\<close> test), the enqueue
  request carries \<^verbatim>\<open>authorization: Bearer <internalToken>\<close> and nothing of the callback
  secret, the callback request carries \<^verbatim>\<open>x-callback-secret: <callbackSecret>\<close> and nothing
  of the token, and the claim request has no headers and no body. Changing one secret
  leaves the other operation's request as it was.
\<close>

theorem secrets_per_operation:
  assumes "internalToken c = Some t" and "t \<noteq> []"
    and "callbackSecret c = Some s" and "s \<noteq> []"
  shows "snd (enqueue i c net jb w) =
           w @ [(baseUrl c @ ''/enqueue'',
                 \<lparr>method = ''POST'',
                  headers = [(''content-type'', ''application/json''), (''authorization'', ''Bearer '' @ t)],
                  body = Some (JSON_stringify jb)\<rparr>)]
       \<and> snd (callback i c net payload w) =
           w @ [(baseUrl c @ ''/callback'',
                 \<lparr>method = ''POST'',
                  headers = [(''content-type'', ''application/json''), (''x-callback-secret'', s)],
                  body = Some (JSON_stringify payload)\<rparr>)]
       \<and> snd (claim i c net w) =
           w @ [(baseUrl c @ ''/claim'', \<lparr>method = ''POST'', headers = [], body = None\<rparr>)]
       \<and> snd (enqueue i (c\<lparr>callbackSecret := s'\<rparr>) net jb w) = snd (enqueue i c net jb w)
       \<and> snd (callback i (c\<lparr>internalToken := t'\<rparr>) net payload w) = snd (callback i c net payload w)"
  using assms
  by (simp add: enqueue_def callback_def claim_def requestJson_wire enqueue_headers_def callback_headers_def)

text \<open>C3 at a client built from a base URL with a trailing slash and two secrets.\<close>

theorem secrets_per_operation_witness:
  \<open>snd (enqueue Fetch (new_HiveClient ''http://localhost:8099/'' (Some ''tok'') (Some ''sec''))
          (fixed_response (Inl (Raised ''TypeError'' ''fetch failed''))) (JObj [(''jobId'', JStr ''demo-1'')]) [])
     = [(''http://localhost:8099/enqueue'',
         \<lparr>method = ''POST'',
          headers = [(''content-type'', ''application/json''), (''authorization'', ''Bearer tok'')],
          body = Some ''{"jobId":"demo-1"}''\<rparr>)]
   \<and> snd (callback Fetch (new_HiveClient ''http://localhost:8099/'' (Some ''tok'') (Some ''sec''))
          (fixed_response (Inl (Raised ''TypeError'' ''fetch failed''))) (JObj [(''claimId'', JStr ''c-1'')]) [])
     = [(''http://localhost:8099/callback'',
         \<lparr>method = ''POST'',
          headers = [(''content-type'', ''application/json''), (''x-callback-secret'', ''sec'')],
          body = Some ''{"claimId":"c-1"}''\<rparr>)]
   \<and> snd (claim Fetch (new_HiveClient ''http://localhost:8099/'' (Some ''tok'') (Some ''sec''))
          (fixed_response (Inl (Raised ''TypeError'' ''fetch failed''))) [])
     = [(''http://localhost:8099/claim'', \<lparr>method = ''POST'', headers = [], body = None\<rparr>)]\<close>
  using secrets_per_operation [of "new_HiveClient ''http://localhost:8099/'' (Some ''tok'') (Some ''sec'')"
      "''tok''" "''sec''" Fetch "fixed_response (Inl (Raised ''TypeError'' ''fetch failed''))"
      "JObj [(''jobId'', JStr ''demo-1'')]" "[]" "JObj [(''claimId'', JStr ''c-1'')]"]
  by (simp add: new_HiveClient_def normalizeBaseUrl_def quote_def escape_char_def)

section \<open>What the client returns\<close>

subsection \<open>Secrets and error output\<close>

text \<open>
  C7, as stated: for a fixed dispatcher response the result or error of the request path
  is the same for any two runs that differ only in the configured secrets, and the error
  text never contains a secret. It does not hold. The dispatcher below always answers 200
  with the same body. A client whose token is \<^verbatim>\<open>tok\<close> gets the body back. A client that
  differs only in its token, which holds a line feed, gets a TypeError instead: fetch
  refuses the authorization header before anything is sent, and the error quotes the
  header value, token included.
\<close>

theorem secret_changes_outcome_counterexample:
  "fst (enqueue Fetch (new_HiveClient ''http://localhost:8099'' (Some ''tok'') (Some ''cb-key''))
         (fetch_answered (Inr (json_response 200 ''OK'' (JObj [(''accepted'', JBool True), (''queueLength'', JNum 1)]))))
         (JObj [(''jobId'', JStr ''demo-1'')]) [])
     = Inr (JObj [(''accepted'', JBool True), (''queueLength'', JNum 1)])
   \<and> fst (enqueue Fetch (new_HiveClient ''http://localhost:8099'' (Some ''s3\<newline>cret'') (Some ''cb-key''))
         (fetch_answered (Inr (json_response 200 ''OK'' (JObj [(''accepted'', JBool True), (''queueLength'', JNum 1)]))))
         (JObj [(''jobId'', JStr ''demo-1'')]) [])
     = Inl (InvalidHeaderValue ''Bearer s3\<newline>cret'')
   \<and> error_mentions ''s3\<newline>cret'' (InvalidHeaderValue ''Bearer s3\<newline>cret'')"
proof (intro conjI)
  show "fst (enqueue Fetch (new_HiveClient ''http://localhost:8099'' (Some ''tok'') (Some ''cb-key''))
         (fetch_answered (Inr (json_response 200 ''OK'' (JObj [(''accepted'', JBool True), (''queueLength'', JNum 1)]))))
         (JObj [(''jobId'', JStr ''demo-1'')]) [])
     = Inr (JObj [(''accepted'', JBool True), (''queueLength'', JNum 1)])"
    by (simp add: enqueue_def new_HiveClient_def enqueue_headers_def requestJson_fetch_def
        fetch_answered_def json_response_def ok_def isValidHeaderValue_def headerValueNormalize_def
        http_whitespace_def header_char_def)
  show "fst (enqueue Fetch (new_HiveClient ''http://localhost:8099'' (Some ''s3\<newline>cret'') (Some ''cb-key''))
         (fetch_answered (Inr (json_response 200 ''OK'' (JObj [(''accepted'', JBool True), (''queueLength'', JNum 1)]))))
         (JObj [(''jobId'', JStr ''demo-1'')]) [])
     = Inl (InvalidHeaderValue ''Bearer s3\<newline>cret'')"
    by (simp add: enqueue_def new_HiveClient_def enqueue_headers_def requestJson_fetch_def
        fetch_answered_def json_response_def ok_def isValidHeaderValue_def headerValueNormalize_def
        http_whitespace_def header_char_def)
  show "error_mentions ''s3\<newline>cret'' (InvalidHeaderValue ''Bearer s3\<newline>cret'')"
    by code_simp
qed

text \<open>
  C7, amended: the secrets reach the outcome only through the HTTP library. Whenever the
  library answers the enqueue request and the callback request of the two runs alike, as
  it does for a fixed dispatcher response when the secrets of both runs are header values
  the library accepts, the result returned or the error raised by health, enqueue, claim
  and callback is the same for two clients that differ only in \<^verbatim>\<open>internalToken\<close> and
  \<^verbatim>\<open>callbackSecret\<close>; health and claim send no secret at all. What the client makes of a
  response is built from the response alone: the undici client returns what reading the
  body as JSON yields; the fetch client does so for a 2xx status and otherwise throws an
  Error whose text is \<^verbatim>\<open>HTTP <status> <statusText>: <body text>\<close>.
\<close>

theorem secrets_reach_outcome_through_library_only:
  assumes "net (baseUrl c @ ''/enqueue'')
             \<lparr>method = ''POST'', headers = enqueue_headers (c\<lparr>internalToken := t, callbackSecret := s\<rparr>),
              body = Some (JSON_stringify jb)\<rparr>
         = net (baseUrl c @ ''/enqueue'')
             \<lparr>method = ''POST'', headers = enqueue_headers c, body = Some (JSON_stringify jb)\<rparr>"
    and "net (baseUrl c @ ''/callback'')
             \<lparr>method = ''POST'', headers = callback_headers (c\<lparr>internalToken := t, callbackSecret := s\<rparr>),
              body = Some (JSON_stringify payload)\<rparr>
         = net (baseUrl c @ ''/callback'')
             \<lparr>method = ''POST'', headers = callback_headers c, body = Some (JSON_stringify payload)\<rparr>"
  shows "fst (health i (c\<lparr>internalToken := t, callbackSecret := s\<rparr>) net w) = fst (health i c net w)
   \<and> fst (enqueue i (c\<lparr>internalToken := t, callbackSecret := s\<rparr>) net jb w) = fst (enqueue i c net jb w)
   \<and> fst (claim i (c\<lparr>internalToken := t, callbackSecret := s\<rparr>) net w) = fst (claim i c net w)
   \<and> fst (callback i (c\<lparr>internalToken := t, callbackSecret := s\<rparr>) net payload w)
     = fst (callback i c net payload w)
   \<and> fst (requestJson Undici (fixed_response (Inr res)) url init w) = body_json res
   \<and> fst (requestJson Fetch (fixed_response (Inr res)) url init w)
     = (if ok res then body_json res
        else Inl (Error (''HTTP '' @ string_of_nat (status res) @ '' '' @ statusText res @ '': ''
                         @ (case body_text res of None \<Rightarrow> [] | Some b \<Rightarrow> b))))"
proof (intro conjI)
  show "fst (health i (c\<lparr>internalToken := t, callbackSecret := s\<rparr>) net w) = fst (health i c net w)"
    by (simp add: health_def)
  show "fst (claim i (c\<lparr>internalToken := t, callbackSecret := s\<rparr>) net w) = fst (claim i c net w)"
    by (simp add: claim_def)
  show "fst (enqueue i (c\<lparr>internalToken := t, callbackSecret := s\<rparr>) net jb w) = fst (enqueue i c net jb w)"
    unfolding enqueue_def using assms(1) by (intro requestJson_outcome_cong) simp
  show "fst (callback i (c\<lparr>internalToken := t, callbackSecret := s\<rparr>) net payload w)
     = fst (callback i c net payload w)"
    unfolding callback_def using assms(2) by (intro requestJson_outcome_cong) simp
  show "fst (requestJson Undici (fixed_response (Inr res)) url init w) = body_json res"
    by (simp add: requestJson_undici_def fixed_response_def split: sum.splits)
  show "fst (requestJson Fetch (fixed_response (Inr res)) url init w)
     = (if ok res then body_json res
        else Inl (Error (''HTTP '' @ string_of_nat (status res) @ '' '' @ statusText res @ '': ''
                         @ (case body_text res of None \<Rightarrow> [] | Some b \<Rightarrow> b))))"
    by (simp add: requestJson_fetch_def fixed_response_def split: sum.splits option.splits)
qed

text \<open>
  C7, amended, at a dispatcher that always answers 401 and two clients with different
  secrets that fetch accepts as header values: both get the same Error.
\<close>

theorem secrets_reach_outcome_through_library_only_witness:
  \<open>fst (enqueue Fetch (new_HiveClient ''http://localhost:8099'' (Some ''tok'') (Some ''cb-key''))
         (fetch_answered (Inr (json_response 401 ''Unauthorized'' (JObj [(''error'', JStr ''Unauthorized'')]))))
         (JObj [(''jobId'', JStr ''demo-1'')]) [])
     = Inl (Error ''HTTP 401 Unauthorized: {"error":"Unauthorized"}'')
   \<and> fst (enqueue Fetch (new_HiveClient ''http://localhost:8099'' (Some ''other-token'') (Some ''other-key''))
         (fetch_answered (Inr (json_response 401 ''Unauthorized'' (JObj [(''error'', JStr ''Unauthorized'')]))))
         (JObj [(''jobId'', JStr ''demo-1'')]) [])
     = Inl (Error ''HTTP 401 Unauthorized: {"error":"Unauthorized"}'')\<close>
proof -
  let ?c = "new_HiveClient ''http://localhost:8099'' (Some ''tok'') (Some ''cb-key'')"
  let ?net = "fetch_answered (Inr (json_response 401 ''Unauthorized'' (JObj [(''error'', JStr ''Unauthorized'')])))"
  let ?jb = "JObj [(''jobId'', JStr ''demo-1'')]"
  have e: "?net (baseUrl ?c @ ''/enqueue'')
             \<lparr>method = ''POST'',
              headers = enqueue_headers (?c\<lparr>internalToken := Some ''other-token'', callbackSecret := Some ''other-key''\<rparr>),
              body = Some (JSON_stringify ?jb)\<rparr>
         = ?net (baseUrl ?c @ ''/enqueue'')
             \<lparr>method = ''POST'', headers = enqueue_headers ?c, body = Some (JSON_stringify ?jb)\<rparr>"
    by (simp add: new_HiveClient_def enqueue_headers_def fetch_answered_def isValidHeaderValue_def
        headerValueNormalize_def http_whitespace_def header_char_def)
  have cb: "?net (baseUrl ?c @ ''/callback'')
             \<lparr>method = ''POST'',
              headers = callback_headers (?c\<lparr>internalToken := Some ''other-token'', callbackSecret := Some ''other-key''\<rparr>),
              body = Some (JSON_stringify ?jb)\<rparr>
         = ?net (baseUrl ?c @ ''/callback'')
             \<lparr>method = ''POST'', headers = callback_headers ?c, body = Some (JSON_stringify ?jb)\<rparr>"
    by (simp add: new_HiveClient_def callback_headers_def fetch_answered_def isValidHeaderValue_def
        headerValueNormalize_def http_whitespace_def header_char_def)
  have same: "?c\<lparr>internalToken := Some ''other-token'', callbackSecret := Some ''other-key''\<rparr>
      = new_HiveClient ''http://localhost:8099'' (Some ''other-token'') (Some ''other-key'')"
    by (simp add: new_HiveClient_def)
  have one: \<open>fst (enqueue Fetch ?c ?net ?jb []) = Inl (Error ''HTTP 401 Unauthorized: {"error":"Unauthorized"}'')\<close>
    by (simp add: enqueue_def new_HiveClient_def enqueue_headers_def requestJson_fetch_def
        fetch_answered_def json_response_def ok_def isValidHeaderValue_def headerValueNormalize_def
        http_whitespace_def header_char_def string_of_nat.simps digit_char_def quote_def escape_char_def)
  show ?thesis
    using secrets_reach_outcome_through_library_only [OF e cb, where i = Fetch and w = "[]"] one
    by (simp add: same)
qed

subsection \<open>The two variants of the client\<close>




section \<open>The route handlers\<close>

text \<open>
  C9: whatever outcome the claim attempt returns (a job, \<^verbatim>\<open>{job: null}\<close>, an \<^verbatim>\<open>{error}\<close>
  payload, or any other JSON), the handler made by \<^verbatim>\<open>createNextClaimRoute\<close> answers with
  status 200, content type JSON and the outcome's \<^verbatim>\<open>JSON.stringify\<close> as body.
\<close>

theorem claim_route_always_200:
  assumes "claim i c net w = (Inr data, w')"
  shows "createNextClaimRoute i c net w =
           (Inr \<lparr>resp_body = JSON_stringify data, resp_status = 200,
                 resp_headers = [(''content-type'', ''application/json'')]\<rparr>, w')"
  using assms by (simp add: createNextClaimRoute_def)

text \<open>C9 at an empty queue and at an error payload.\<close>

theorem claim_route_always_200_witness:
  \<open>fst (createNextClaimRoute Fetch (new_HiveClient ''http://localhost:8099'' None None)
          (fixed_response (Inr (json_response 200 ''OK'' (JObj [(''job'', JNull)])))) [])
     = Inr \<lparr>resp_body = ''{"job":null}'', resp_status = 200,
            resp_headers = [(''content-type'', ''application/json'')]\<rparr>
   \<and> fst (createNextClaimRoute Undici (new_HiveClient ''http://localhost:8099'' None None)
          (fixed_response (Inr (json_response 500 ''Internal Server Error'' (JObj [(''error'', JStr ''boom'')])))) [])
     = Inr \<lparr>resp_body = ''{"error":"boom"}'', resp_status = 200,
            resp_headers = [(''content-type'', ''application/json'')]\<rparr>\<close>
proof -
  have a: "claim Fetch (new_HiveClient ''http://localhost:8099'' None None)
          (fixed_response (Inr (json_response 200 ''OK'' (JObj [(''job'', JNull)])))) []
        = (Inr (JObj [(''job'', JNull)]),
           [(''http://localhost:8099/claim'', \<lparr>method = ''POST'', headers = [], body = None\<rparr>)])"
    by (simp add: claim_def new_HiveClient_def normalizeBaseUrl_def requestJson_fetch_def
        fixed_response_def json_response_def ok_def)
  have b: "claim Undici (new_HiveClient ''http://localhost:8099'' None None)
          (fixed_response (Inr (json_response 500 ''Internal Server Error'' (JObj [(''error'', JStr ''boom'')])))) []
        = (Inr (JObj [(''error'', JStr ''boom'')]),
           [(''http://localhost:8099/claim'', \<lparr>method = ''POST'', headers = [], body = None\<rparr>)])"
    by (simp add: claim_def new_HiveClient_def normalizeBaseUrl_def requestJson_undici_def
        fixed_response_def json_response_def)
  show ?thesis
    using claim_route_always_200 [OF a] claim_route_always_200 [OF b]
    by (simp add: quote_def escape_char_def)
qed

text \<open>
  C10, as stated: the handler made by \<^verbatim>\<open>createNextCallbackRoute\<close> answers 200 exactly
  when the forwarded result has \<^verbatim>\<open>ok = true\<close>. It does not hold: the handler tests
  \<^verbatim>\<open>data.ok ? 200 : 401\<close>, the truthiness of \<^verbatim>\<open>ok\<close>, and the result is whatever JSON the
  dispatcher sent. For the result \<^verbatim>\<open>{"ok":"false"}\<close>, whose \<^verbatim>\<open>ok\<close> is a non-empty string
  and not \<^verbatim>\<open>true\<close>, it answers 200.
\<close>

theorem callback_route_ok_true_counterexample:
  \<open>fst (createNextCallbackRoute Fetch (new_HiveClient ''http://localhost:8099'' None (Some ''sec''))
          (fixed_response (Inr (json_response 200 ''OK'' (JObj [(''ok'', JStr ''false'')]))))
          (Inr (JObj [(''claimId'', JStr ''c-1'')])) [])
     = Inr \<lparr>resp_body = ''{"ok":"false"}'', resp_status = 200,
            resp_headers = [(''content-type'', ''application/json'')]\<rparr>
   \<and> get_property (JObj [(''ok'', JStr ''false'')]) ''ok'' \<noteq> Inr (Some (JBool True))\<close>
  by (simp add: createNextCallbackRoute_def callback_def requestJson_fetch_def fixed_response_def
      json_response_def ok_def quote_def escape_char_def)

text \<open>
  C10, amended: for every result the forwarded callback returns, the handler throws a
  TypeError if the result is \<^verbatim>\<open>null\<close>, and otherwise answers 200 exactly when the
  result's \<^verbatim>\<open>ok\<close> is truthy (\<^verbatim>\<open>true\<close>, a number other than 0, a non-empty string, an array or an object)
  and 401 when it is falsy (\<^verbatim>\<open>false\<close>, 0, the empty string, \<^verbatim>\<open>null\<close>, or absent),
  whatever else the result holds: every failure the dispatcher reports with a falsy
  \<^verbatim>\<open>ok\<close> becomes a 401. The body is the result's \<^verbatim>\<open>JSON.stringify\<close>.
\<close>

theorem callback_route_status:
  assumes "callback i c net payload w = (Inr data, w')"
  shows "createNextCallbackRoute i c net (Inr payload) w =
           (case get_property data ''ok'' of
              Inl e \<Rightarrow> (Inl e, w')
            | Inr flag \<Rightarrow>
                (Inr \<lparr>resp_body = JSON_stringify data,
                      resp_status = (if truthy flag then 200 else 401),
                      resp_headers = [(''content-type'', ''application/json'')]\<rparr>, w'))"
  using assms by (simp add: createNextCallbackRoute_def)

text \<open>
  C10, amended, at a dispatcher reporting ClaimClosed, at one reporting success, and at one
  whose result has no \<^verbatim>\<open>ok\<close> at all.
\<close>

theorem callback_route_status_witness:
  \<open>fst (createNextCallbackRoute Fetch (new_HiveClient ''http://localhost:8099'' None (Some ''sec''))
          (fixed_response (Inr (json_response 200 ''OK''
              (JObj [(''ok'', JBool False), (''error'', JStr ''ClaimClosed'')]))))
          (Inr (JObj [(''claimId'', JStr ''c-1'')])) [])
     = Inr \<lparr>resp_body = ''{"ok":false,"error":"ClaimClosed"}'', resp_status = 401,
            resp_headers = [(''content-type'', ''application/json'')]\<rparr>
   \<and> fst (createNextCallbackRoute Fetch (new_HiveClient ''http://localhost:8099'' None (Some ''sec''))
          (fixed_response (Inr (json_response 200 ''OK'' (JObj [(''ok'', JBool True)]))))
          (Inr (JObj [(''claimId'', JStr ''c-1'')])) [])
     = Inr \<lparr>resp_body = ''{"ok":true}'', resp_status = 200,
            resp_headers = [(''content-type'', ''application/json'')]\<rparr>
   \<and> fst (createNextCallbackRoute Fetch (new_HiveClient ''http://localhost:8099'' None (Some ''sec''))
          (fixed_response (Inr (json_response 200 ''OK'' (JObj [(''error'', JStr ''UnknownClaim'')]))))
          (Inr (JObj [(''claimId'', JStr ''c-1'')])) [])
     = Inr \<lparr>resp_body = ''{"error":"UnknownClaim"}'', resp_status = 401,
            resp_headers = [(''content-type'', ''application/json'')]\<rparr>\<close>
proof -
  let ?c = "new_HiveClient ''http://localhost:8099'' None (Some ''sec'')"
  let ?p = "JObj [(''claimId'', JStr ''c-1'')]"
  let ?closed = "JObj [(''ok'', JBool False), (''error'', JStr ''ClaimClosed'')]"
  let ?done = "JObj [(''ok'', JBool True)]"
  let ?bare = "JObj [(''error'', JStr ''UnknownClaim'')]"
  have r: "callback Fetch ?c (fixed_response (Inr (json_response 200 ''OK'' v))) ?p []
        = (Inr v, snd (callback Fetch ?c (fixed_response (Inr (json_response 200 ''OK'' v))) ?p []))"
    for v
    by (simp add: callback_def requestJson_fetch_def fixed_response_def json_response_def ok_def)
  show ?thesis
    using callback_route_status [OF r [of ?closed]] callback_route_status [OF r [of ?done]]
      callback_route_status [OF r [of ?bare]]
    by (simp add: quote_def escape_char_def)
qed

section \<open>The dispatcher: first in, first out\<close>

lemma enqueue_all_fresh:
  "distinct (map jobId js) \<Longrightarrow> (\<forall>j\<in>set js. store d (jobId j) = None) \<Longrightarrow>
     fst (enqueue_all d js) = map Inr [Suc (length (queue d)) ..< Suc (length (queue d)) + length js]
   \<and> queue (snd (enqueue_all d js)) = queue d @ map jobId js
   \<and> nextClaimId (snd (enqueue_all d js)) = nextClaimId d
   \<and> (\<forall>j\<in>set js. map_option job (store (snd (enqueue_all d js)) (jobId j)) = Some j)
   \<and> (\<forall>k. k \<notin> jobId ` set js \<longrightarrow> store (snd (enqueue_all d js)) k = store d k)"
proof (induction js arbitrary: d)
  case Nil
  then show ?case by simp
next
  case (Cons j js)
  let ?d1 = "snd (Queue_enqueue d j)"
  have fresh: "store d (jobId j) = None" using Cons.prems by simp
  have r: "fst (Queue_enqueue d j) = Inr (Suc (length (queue d)))"
    using fresh by (simp add: Queue_enqueue_def)
  have q1: "queue ?d1 = queue d @ [jobId j]"
    using fresh by (simp add: Queue_enqueue_def)
  have n1: "nextClaimId ?d1 = nextClaimId d"
    using fresh by (simp add: Queue_enqueue_def)
  have s1: "store ?d1 = (store d)(jobId j \<mapsto> \<lparr>job = j, state = Pending, logs = None,
                  merged = (case metadata j of None \<Rightarrow> Map.empty | Some m \<Rightarrow> m)\<rparr>)"
    using fresh by (simp add: Queue_enqueue_def)
  have d: "distinct (map jobId js)" using Cons.prems by simp
  have notin: "jobId j \<notin> jobId ` set js" using Cons.prems by auto
  have f: "\<forall>x\<in>set js. store ?d1 (jobId x) = None"
  proof
    fix x assume x: "x \<in> set js"
    then have "jobId x \<noteq> jobId j" using notin by (metis imageI)
    then show "store ?d1 (jobId x) = None" using Cons.prems x by (simp add: s1)
  qed
  note IH = Cons.IH [OF d f]
  have e: "enqueue_all d (j # js) = (fst (Queue_enqueue d j) # fst (enqueue_all ?d1 js), snd (enqueue_all ?d1 js))"
    by (simp add: split_beta)
  show ?case
  proof (intro conjI)
    show "fst (enqueue_all d (j # js)) =
      map Inr [Suc (length (queue d))..<Suc (length (queue d)) + length (j # js)]"
      using IH r by (simp add: split_beta q1 upt_conv_Cons del: upt_Suc)
    show "queue (snd (enqueue_all d (j # js))) = queue d @ map jobId (j # js)"
      using IH by (simp add: split_beta q1)
    show "nextClaimId (snd (enqueue_all d (j # js))) = nextClaimId d"
      using IH by (simp add: split_beta n1)
    show "\<forall>x\<in>set (j # js). map_option job (store (snd (enqueue_all d (j # js))) (jobId x)) = Some x"
      using IH notin by (simp add: split_beta s1)
    show "\<forall>k. k \<notin> jobId ` set (j # js) \<longrightarrow> store (snd (enqueue_all d (j # js))) k = store d k"
      using IH by (simp add: split_beta s1)
  qed
qed

lemma claim_all_fifo:
  "list_all2 (\<lambda>h j. map_option job (store d h) = Some j) (queue d) js \<Longrightarrow>
   claim_all d wts =
     map2 (\<lambda>j n. Inr (Granted j n)) (take (length wts) js)
          [nextClaimId d ..< nextClaimId d + length wts]
     @ replicate (length wts - length js) (Inr NoJob)"
proof (induction wts arbitrary: d js)
  case Nil
  then show ?case by simp
next
  case (Cons wt wts)
  show ?case
  proof (cases "queue d")
    case Nil
    then have js: "js = []" using Cons.prems by simp
    have c: "Coordinator_claim d (fst wt) (snd wt) = (Inr NoJob, d)"
      using Nil by (simp add: Coordinator_claim_def dequeueNext_def)
    have "list_all2 (\<lambda>h j. map_option job (store d h) = Some j) (queue d) []"
      using Nil by simp
    from Cons.IH [OF this] show ?thesis
      by (simp add: c js)
  next
    case (Cons h rest)
    then obtain j js' where js: "js = j # js'"
      and hj: "map_option job (store d h) = Some j"
      and rest: "list_all2 (\<lambda>h j. map_option job (store d h) = Some j) rest js'"
      using Cons.prems by (auto simp add: list_all2_Cons1)
    from hj obtain r where r: "store d h = Some r" "job r = j" by auto
    let ?d1 = "snd (Coordinator_claim d (fst wt) (snd wt))"
    have c: "fst (Coordinator_claim d (fst wt) (snd wt)) = Inr (Granted j (nextClaimId d))"
      using Cons r by (simp add: Coordinator_claim_def dequeueNext_def)
    have q1: "queue ?d1 = rest"
      using Cons r by (simp add: Coordinator_claim_def dequeueNext_def)
    have n1: "nextClaimId ?d1 = Suc (nextClaimId d)"
      using Cons r by (simp add: Coordinator_claim_def dequeueNext_def)
    have s1: "map_option job (store ?d1 k) = map_option job (store d k)" for k
      using Cons r by (simp add: Coordinator_claim_def dequeueNext_def)
    have "list_all2 (\<lambda>h j. map_option job (store ?d1 h) = Some j) (queue ?d1) js'"
      using rest by (simp add: q1 s1)
    from Cons.IH [OF this]
    have "claim_all ?d1 wts =
      map2 (\<lambda>j n. Inr (Granted j n)) (take (length wts) js')
        [Suc (nextClaimId d) ..< Suc (nextClaimId d) + length wts]
      @ replicate (length wts - length js') (Inr NoJob)"
      by (simp add: n1 del: upt_Suc)
    then show ?thesis
      using c by (simp add: js split_beta upt_conv_Cons del: upt_Suc)
  qed
qed

lemma queue_after_claims:
  "set (queue d) \<subseteq> dom (store d) \<Longrightarrow>
   queue (run d (map (\<lambda>wt. OpClaim (fst wt) (snd wt)) wts)) = drop (length wts) (queue d)"
proof (induction wts arbitrary: d)
  case Nil
  then show ?case by simp
next
  case (Cons wt wts)
  show ?case
  proof (cases "queue d")
    case Nil
    then have "snd (Coordinator_claim d (fst wt) (snd wt)) = d"
      by (simp add: Coordinator_claim_def dequeueNext_def)
    then show ?thesis using Cons.IH [of d] Cons.prems Nil by simp
  next
    case (Cons h rest)
    then obtain r where r: "store d h = Some r" using Cons.prems by auto
    let ?d1 = "snd (Coordinator_claim d (fst wt) (snd wt))"
    have q1: "queue ?d1 = rest"
      using Cons r by (simp add: Coordinator_claim_def dequeueNext_def)
    have s1: "dom (store ?d1) = dom (store d)"
      using Cons r by (auto simp add: Coordinator_claim_def dequeueNext_def)
    have "set (queue ?d1) \<subseteq> dom (store ?d1)"
      using Cons.prems Cons by (simp add: q1 s1)
    from Cons.IH [OF this] show ?thesis
      by (simp add: q1 Cons)
  qed
qed

text \<open>
  C4: starting from the empty dispatcher, enqueue any jobs with pairwise distinct jobIds:
  every enqueue is accepted, the k-th reporting queue length k. Then let any workers
  claim, in any number: the claims are granted the jobs in exactly the order of
  enqueueing, with fresh claim identifiers 1, 2, ..., and once the jobs are used up every
  further claim finds no job. Each granted claim removes exactly the head of the queue:
  after n claims the queue is the enqueued identifiers without the first n.
\<close>

theorem claims_follow_enqueue_order:
  assumes "distinct (map jobId js)"
  shows "fst (enqueue_all initial js) = map Inr [1..<Suc (length js)]
    \<and> claim_all (snd (enqueue_all initial js)) wts =
        map2 (\<lambda>j n. Inr (Granted j n)) (take (length wts) js) [1..<Suc (length wts)]
        @ replicate (length wts - length js) (Inr NoJob)
    \<and> queue (run (snd (enqueue_all initial js)) (map (\<lambda>wt. OpClaim (fst wt) (snd wt)) wts))
        = drop (length wts) (map jobId js)"
proof -
  let ?d = "snd (enqueue_all initial js)"
  have fresh: "\<forall>j\<in>set js. store initial (jobId j) = None"
    by (simp add: initial_def)
  note E = enqueue_all_fresh [OF assms fresh]
  have q: "queue ?d = map jobId js" using E by (simp add: initial_def)
  have n: "nextClaimId ?d = 1" using E by (simp add: initial_def)
  have st: "\<forall>j\<in>set js. map_option job (store ?d (jobId j)) = Some j" using E by blast
  have "list_all2 (\<lambda>h j. map_option job (store ?d h) = Some j) (queue ?d) js"
    unfolding q list_all2_map1 using st by (simp add: list_all2_same)
  from claim_all_fifo [OF this, of wts]
  have c: "claim_all ?d wts =
        map2 (\<lambda>j n. Inr (Granted j n)) (take (length wts) js) [1..<Suc (length wts)]
        @ replicate (length wts - length js) (Inr NoJob)"
    by (simp add: n)
  have "set (queue ?d) \<subseteq> dom (store ?d)"
    unfolding q using st by auto
  then have "queue (run ?d (map (\<lambda>wt. OpClaim (fst wt) (snd wt)) wts)) = drop (length wts) (queue ?d)"
    by (rule queue_after_claims)
  then show ?thesis using E c by (simp add: q initial_def)
qed

text \<open>C4 at two jobs and three claims by two workers.\<close>

theorem claims_follow_enqueue_order_witness:
  "distinct (map jobId [example_job ''demo-1'', example_job ''demo-2''])
   \<and> fst (enqueue_all initial [example_job ''demo-1'', example_job ''demo-2'']) = [Inr 1, Inr 2]
   \<and> claim_all (snd (enqueue_all initial [example_job ''demo-1'', example_job ''demo-2'']))
         [(''w-1'', 10), (''w-2'', 11), (''w-1'', 12)]
       = [Inr (Granted (example_job ''demo-1'') 1), Inr (Granted (example_job ''demo-2'') 2), Inr NoJob]
   \<and> queue (run (snd (enqueue_all initial [example_job ''demo-1'', example_job ''demo-2'']))
         [OpClaim ''w-1'' 10]) = [''demo-2'']"
proof -
  have h: "distinct (map jobId [example_job ''demo-1'', example_job ''demo-2''])"
    by (simp add: example_job_def)
  have u: "[1..<Suc 3] = [1, 2, 3]" "[1..<Suc 2] = [1, 2]" "[1..<Suc 1] = [1::nat]"
    by (simp_all add: upt_rec)
  show ?thesis
    using h
      claims_follow_enqueue_order [OF h, of "[(''w-1'', 10), (''w-2'', 11), (''w-1'', 12)]"]
      claims_follow_enqueue_order [OF h, of "[(''w-1'', 10)]"]
    by (simp add: u example_job_def)
qed

section \<open>The dispatcher: a terminal report is final\<close>

lemma closed_step: "cid \<in> closed d \<Longrightarrow> cid \<in> closed (step d x)"
  by (cases x)
    (auto simp add: Queue_enqueue_def Coordinator_claim_def dequeueNext_def reportStatus_def
      split: option.splits list.splits)

lemma ids_below_step: "ids_below d \<Longrightarrow> ids_below (step d x)"
  by (cases x)
    (auto simp add: Queue_enqueue_def Coordinator_claim_def dequeueNext_def reportStatus_def less_Suc_eq
      split: option.splits list.splits if_splits)

lemma inactive_step:
  "ids_below d \<Longrightarrow> cid \<in> closed d \<Longrightarrow> active d cid = None \<Longrightarrow> active (step d x) cid = None"
  by (cases x)
    (auto simp add: Queue_enqueue_def Coordinator_claim_def dequeueNext_def reportStatus_def
      split: option.splits list.splits if_splits)

lemma queue_pending_enqueue: "queue_pending d \<Longrightarrow> queue_pending (snd (Queue_enqueue d j))"
  by (auto simp add: queue_pending_def Queue_enqueue_def list_all_iff split: option.splits)

lemma queue_pending_claim: "queue_pending d \<Longrightarrow> queue_pending (snd (Coordinator_claim d w now))"
  by (auto simp add: queue_pending_def Coordinator_claim_def dequeueNext_def list_all_iff
      split: option.splits list.splits)

lemma queue_pending_report: "queue_pending d \<Longrightarrow> queue_pending (snd (reportStatus d cid w st lg md))"
  by (auto simp add: queue_pending_def reportStatus_def list_all_iff
      split: option.splits list.splits if_splits)

lemma queue_pending_step: "queue_pending d \<Longrightarrow> queue_pending (step d x)"
  by (cases x) (simp_all add: queue_pending_enqueue queue_pending_claim queue_pending_report)

lemma finished_step:
  "queue_pending d \<Longrightarrow> store d j = Some r \<Longrightarrow> state r = Succeeded \<or> state r = Failed \<Longrightarrow>
   store (step d x) j = Some r"
  by (cases x)
    (auto simp add: queue_pending_def Queue_enqueue_def Coordinator_claim_def dequeueNext_def
      reportStatus_def split: option.splits list.splits if_splits)

lemma queue_pending_run: "queue_pending d \<Longrightarrow> queue_pending (run d xs)"
  by (induction xs arbitrary: d) (simp_all add: queue_pending_step)

lemma ids_below_run: "ids_below d \<Longrightarrow> ids_below (run d xs)"
proof (induction xs arbitrary: d)
  case Nil
  then show ?case by simp
next
  case (Cons x xs)
  from ids_below_step [OF Cons.prems] have "ids_below (step d x)" .
  from Cons.IH [OF this] show ?case by simp
qed

lemma closed_run:
  "queue_pending d \<Longrightarrow> ids_below d \<Longrightarrow> cid \<in> closed d \<Longrightarrow> active d cid = None \<Longrightarrow>
   store d j = Some r \<Longrightarrow> state r = Succeeded \<or> state r = Failed \<Longrightarrow>
   cid \<in> closed (run d xs) \<and> active (run d xs) cid = None \<and> store (run d xs) j = Some r"
proof (induction xs arbitrary: d)
  case Nil
  then show ?case by simp
next
  case (Cons x xs)
  have "queue_pending (step d x)" using Cons.prems(1) by (rule queue_pending_step)
  moreover have "ids_below (step d x)" using Cons.prems(2) by (rule ids_below_step)
  moreover have "cid \<in> closed (step d x)" using Cons.prems(3) by (rule closed_step)
  moreover have "active (step d x) cid = None" using Cons.prems(2,3,4) by (rule inactive_step)
  moreover have "store (step d x) j = Some r" using Cons.prems(1,5,6) by (rule finished_step)
  ultimately show ?case using Cons.IH [of "step d x"] Cons.prems(6) by simp
qed

lemma terminal_report_effect:
  assumes "active d cid = Some c" and "terminal st"
    and "reportStatus d cid w st lg md = (Inr (), d1)"
  shows "active d1 cid = None \<and> cid \<in> closed d1 \<and> queue d1 = queue d \<and> nextClaimId d1 = nextClaimId d
    \<and> closed d1 = insert cid (closed d) \<and> dom (active d1) \<subseteq> dom (active d)
    \<and> (\<exists>r. store d1 (claim_jobId c) = Some r \<and> state r = reported_state st)"
  using assms
  by (auto simp add: reportStatus_def split: if_splits option.splits)

text \<open>
  C6: in any state the dispatcher reaches from the empty one, let a report of succeeded or
  failed on an active claim be accepted. Then the claim has left the active claims and is
  closed, and the job has the reported state. From then on, after any further operations
  whatever, every report against that claimId, by any worker and with any status, fails
  with ClaimClosed and leaves the dispatcher as it was; the claim stays out of the active
  claims and the job's record stays exactly what the terminal report made it.
\<close>

theorem terminal_report_is_final:
  assumes "d = run initial before"
    and "active d cid = Some c"
    and "terminal st"
    and "reportStatus d cid w st lg md = (Inr (), d1)"
  shows "active d1 cid = None
    \<and> cid \<in> closed d1
    \<and> (\<exists>r. store d1 (claim_jobId c) = Some r \<and> state r = reported_state st)
    \<and> reportStatus (run d1 later) cid w' st' lg' md' = (Inl ClaimClosed, run d1 later)
    \<and> active (run d1 later) cid = None
    \<and> store (run d1 later) (claim_jobId c) = store d1 (claim_jobId c)"
proof -
  have qp0: "queue_pending initial" by (simp add: queue_pending_def initial_def)
  have ib0: "ids_below initial" by (simp add: initial_def)
  have qp: "queue_pending d" unfolding assms(1) using qp0 by (rule queue_pending_run)
  have ib: "ids_below d" unfolding assms(1) using ib0 by (rule ids_below_run)
  note E = terminal_report_effect [OF assms(2,3,4)]
  have d1: "d1 = snd (reportStatus d cid w st lg md)" using assms(4) by simp
  have qp1: "queue_pending d1" unfolding d1 using qp by (rule queue_pending_report)
  have ib1: "ids_below d1"
    using ids_below_step [OF ib, of "OpReport cid w st lg md"] by (simp add: d1)
  from E obtain r where r: "store d1 (claim_jobId c) = Some r" "state r = reported_state st"
    by blast
  have fin: "state r = Succeeded \<or> state r = Failed"
    using r(2) assms(3) by (cases st) simp_all
  have cl: "cid \<in> closed d1" and ina: "active d1 cid = None" using E by simp_all
  note R = closed_run [OF qp1 ib1 cl ina r(1) fin, of later]
  have "reportStatus (run d1 later) cid w' st' lg' md' = (Inl ClaimClosed, run d1 later)"
    using R by (simp add: reportStatus_def)
  then show ?thesis using E R r by simp
qed

text \<open>
  C6 along the scenario of the specification: enqueue, claim, running, succeeded; then the
  same jobId is submitted again, another worker claims, and a late report arrives.
\<close>

theorem terminal_report_is_final_witness:
  "fst (reportStatus
         (run initial
            [OpEnqueue (example_job ''demo-1''), OpClaim ''w-1'' 0,
             OpReport 1 ''w-1'' ReportRunning None None,
             OpReport 1 ''w-1'' ReportSucceeded (Some ''done'') None,
             OpEnqueue (example_job ''demo-1''), OpClaim ''w-2'' 5])
         1 ''w-1'' ReportFailed None None) = Inl ClaimClosed
   \<and> map_option state
        (store (run initial
            [OpEnqueue (example_job ''demo-1''), OpClaim ''w-1'' 0,
             OpReport 1 ''w-1'' ReportRunning None None,
             OpReport 1 ''w-1'' ReportSucceeded (Some ''done'') None,
             OpEnqueue (example_job ''demo-1''), OpClaim ''w-2'' 5]) ''demo-1'') = Some Succeeded"
proof -
  let ?before = "[OpEnqueue (example_job ''demo-1''), OpClaim ''w-1'' 0,
             OpReport 1 ''w-1'' ReportRunning None None]"
  let ?later = "[OpEnqueue (example_job ''demo-1''), OpClaim ''w-2'' 5]"
  let ?d = "run initial ?before"
  let ?c = "\<lparr>claim_jobId = ''demo-1'', claim_workerId = ''w-1'', claimedAt = 0\<rparr>"
  let ?d1 = "snd (reportStatus ?d 1 ''w-1'' ReportSucceeded (Some ''done'') None)"
  have h1: "?d = run initial ?before" by (rule refl)
  have h2: "active ?d 1 = Some ?c"
    by (simp add: initial_def example_job_def Queue_enqueue_def Coordinator_claim_def
        dequeueNext_def reportStatus_def)
  have h3: "terminal ReportSucceeded" by simp
  have "fst (reportStatus ?d 1 ''w-1'' ReportSucceeded (Some ''done'') None) = Inr ()"
    by (simp add: initial_def example_job_def Queue_enqueue_def Coordinator_claim_def
        dequeueNext_def reportStatus_def)
  then have h4: "reportStatus ?d 1 ''w-1'' ReportSucceeded (Some ''done'') None = (Inr (), ?d1)"
    by (simp add: prod_eq_iff)
  have r: "run initial (?before @ OpReport 1 ''w-1'' ReportSucceeded (Some ''done'') None # ?later)
        = run ?d1 ?later"
    by simp
  note T = terminal_report_is_final [OF h1 h2 h3 h4, of ?later "''w-1''" ReportFailed None None]
  have s: "map_option state (store ?d1 ''demo-1'') = Some Succeeded"
    using T by auto
  show ?thesis
    using T s r by simp
qed

end
